theory Spec2Isabelle
  imports Main "HOL-Library.Word"
begin

section \<open>The WINAPI shared object loader\<close>

text \<open>
  A shallow embedding of \<^verbatim>\<open>win_shared_object_loader.h\<close>: the class
  \<^verbatim>\<open>SharedObjectLoader\<close> with its private helpers, its two constructors, its
  destructor and \<^verbatim>\<open>get_symbol\<close>. The class is a thin layer over primitives of
  the operating system, so the embedding has two parts: a small model of the process state
  those primitives read and write, and the member functions of the class, translated
  statement by statement over that state.
\<close>

subsection \<open>Basic types\<close>

text \<open>
  \<^verbatim>\<open>HMODULE\<close> and the \<^verbatim>\<open>void*\<close> returned by symbol resolution are
  opaque values with a distinguished null, modelled as natural numbers with \<open>0\<close> for
  null. \<^verbatim>\<open>DWORD\<close> error codes are 32-bit words. Buffer lengths are also
  \<^verbatim>\<open>DWORD\<close> in the source; they stay far below \<open>2 ^ 32\<close> and are modelled as
  natural numbers. A narrow string (\<^verbatim>\<open>LPCSTR\<close>) is the list of characters before the
  terminating NUL, a wide string (\<^verbatim>\<open>LPCWSTR\<close>) the list of 16-bit units before it.
\<close>

type_synonym hmodule = nat
type_synonym farproc = nat
type_synonym dword = "32 word"
type_synonym wchar = "16 word"
type_synonym wstring = "wchar list"

subsection \<open>The operating system\<close>

text \<open>
  The calls that change what is loaded or where modules are searched are recorded, with
  their results, in a log (oldest call first), so that statements about which primitive
  was called with which argument, and in which order, can be made.
\<close>

datatype 'c os_call =
    SetDllDirectoryCall "'c list"
  | LoadLibraryCall "'c list" hmodule
  | FreeLibraryCall hmodule bool

text \<open>
  What lies outside the process is a parameter of the model:
  \<^item> \<open>find_module dir cwd path\<close> is what the loader of the operating system makes of
    \<open>path\<close> when the application search directory is \<open>dir\<close> and the current
    directory is \<open>cwd\<close>: a handle (null when the load fails) and the error code it
    reports in that case;
  \<^item> \<open>find_export h name\<close> is the address of the export \<open>name\<close> of module
    \<open>h\<close> (null when there is none) and the error code reported in that case;
  \<^item> \<open>invalid_handle_code\<close> is the error code for releasing a handle that is not
    loaded;
  \<^item> \<open>unset_reports_zero\<close> says whether the length query of the search directory
    answers \<open>0\<close> rather than \<open>1\<close> while no directory was ever configured (the
    documentation of the primitive leaves this open, and the guard of
    \<^verbatim>\<open>ExcludeCurrentDirectory\<close> accepts both);
  \<^item> \<open>lead_byte\<close> is the code page of the process, as far as lengths go: a narrow
    character for which it holds forms one wide character together with the character
    that follows it. In a single-byte code page it holds of no character.
\<close>

record 'c os_env =
  find_module :: "'c list option \<Rightarrow> string \<Rightarrow> 'c list \<Rightarrow> hmodule \<times> dword"
  find_export :: "hmodule \<Rightarrow> string \<Rightarrow> farproc \<times> dword"
  invalid_handle_code :: dword
  unset_reports_zero :: bool
  lead_byte :: "'c \<Rightarrow> bool"

text \<open>
  The process state: the application search directory (\<open>None\<close> while it was never
  configured, which the source calls \<^verbatim>\<open>NULL\<close>), the last error code of the thread,
  the current working directory, the reference count of every module handle, and the log.
  The strings of the state have the character type \<open>'c\<close> of the constructor that
  runs: narrow characters for \<^verbatim>\<open>SharedObjectLoader(LPCSTR)\<close>, wide ones for
  \<^verbatim>\<open>SharedObjectLoader(LPCWSTR)\<close>. A primitive called at that character type
  (the \<^verbatim>\<open>A\<close> entry points by the narrow constructor, the \<^verbatim>\<open>W\<close> entry points
  by the wide one) is one definition for both; the one place where the narrow code calls
  a \<^verbatim>\<open>W\<close> entry point has a definition of its own below.
\<close>

record 'c os_state =
  dll_directory :: "'c list option"
  last_error :: dword
  current_directory :: string
  refcount :: "hmodule \<Rightarrow> nat"
  calls :: "'c os_call list"

definition GetLastError :: "'c os_state \<Rightarrow> dword" where
  "GetLastError s = last_error s"

text \<open>
  \<^verbatim>\<open>SetDllDirectory(dir)\<close> with a non-null argument replaces the application search
  directory. The source ignores its result; the model lets it succeed and leave the last
  error code alone.
\<close>

definition SetDllDirectory :: "'c list \<Rightarrow> 'c os_state \<Rightarrow> 'c os_state" where
  "SetDllDirectory dir s =
     s\<lparr>dll_directory := Some dir, calls := calls s @ [SetDllDirectoryCall dir]\<rparr>"

text \<open>
  \<^verbatim>\<open>GetDllDirectory(nBufferLength, lpBuffer)\<close>: when the buffer has room for the
  directory and its terminator, the directory is copied and its length returned;
  otherwise the required size (length plus one) is returned and nothing but a terminator
  is stored. The second component is the string that a caller reads from a zero-filled
  buffer of \<open>nBufferLength\<close> characters after the call.
\<close>

definition GetDllDirectory :: "'c os_env \<Rightarrow> nat \<Rightarrow> 'c os_state \<Rightarrow> nat \<times> 'c list" where
  "GetDllDirectory env nBufferLength s =
     (case dll_directory s of
        None \<Rightarrow>
          if 0 < nBufferLength then (0, [])
          else ((if unset_reports_zero env then 0 else 1), [])
      | Some dir \<Rightarrow>
          if length dir < nBufferLength then (length dir, dir)
          else (length dir + 1, []))"

text \<open>
  The number of wide characters of a narrow string: a lead byte and the character after
  it count as one.
\<close>

fun wide_length :: "('c \<Rightarrow> bool) \<Rightarrow> 'c list \<Rightarrow> nat" where
  "wide_length lead [] = 0"
| "wide_length lead [c] = 1"
| "wide_length lead (c # d # cs) =
     (if lead c then Suc (wide_length lead cs) else Suc (wide_length lead (d # cs)))"

text \<open>
  \<^verbatim>\<open>GetDllDirectoryW(0, nullptr)\<close> called where the strings are narrow: the required
  size of a buffer of wide characters, terminator included.
\<close>

definition GetDllDirectoryW_required :: "char os_env \<Rightarrow> char os_state \<Rightarrow> nat" where
  "GetDllDirectoryW_required env s =
     (case dll_directory s of
        None \<Rightarrow> (if unset_reports_zero env then 0 else 1)
      | Some dir \<Rightarrow> wide_length (lead_byte env) dir + 1)"

text \<open>
  \<^verbatim>\<open>LoadLibrary(path)\<close>: on success the reference count of the module goes up by
  one; on failure the handle is null and the last error code is set.
\<close>

definition LoadLibrary :: "'c os_env \<Rightarrow> 'c list \<Rightarrow> 'c os_state \<Rightarrow> hmodule \<times> 'c os_state" where
  "LoadLibrary env path s =
     (let (h, code) = find_module env (dll_directory s) (current_directory s) path in
      if h = 0
      then (0, s\<lparr>last_error := code, calls := calls s @ [LoadLibraryCall path 0]\<rparr>)
      else (h, s\<lparr>refcount := (refcount s)(h := Suc (refcount s h)),
                calls := calls s @ [LoadLibraryCall path h]\<rparr>))"

text \<open>
  \<^verbatim>\<open>FreeLibrary(h)\<close>: releases one reference of a loaded module; for a null handle
  or a handle that is not loaded it fails, sets the last error code and changes nothing
  else.
\<close>

definition FreeLibrary :: "'c os_env \<Rightarrow> hmodule \<Rightarrow> 'c os_state \<Rightarrow> bool \<times> 'c os_state" where
  "FreeLibrary env h s =
     (if h \<noteq> 0 \<and> 0 < refcount s h
      then (True, s\<lparr>refcount := (refcount s)(h := refcount s h - 1),
                   calls := calls s @ [FreeLibraryCall h True]\<rparr>)
      else (False, s\<lparr>last_error := invalid_handle_code env,
                    calls := calls s @ [FreeLibraryCall h False]\<rparr>))"

text \<open>
  \<^verbatim>\<open>GetProcAddress(h, name)\<close>: the address of the export, or null with the last
  error code set.
\<close>

definition GetProcAddress ::
  "'c os_env \<Rightarrow> hmodule \<Rightarrow> string \<Rightarrow> 'c os_state \<Rightarrow> farproc \<times> 'c os_state" where
  "GetProcAddress env h name s =
     (let (addr, code) = find_export env h name in
      if addr = 0 then (0, s\<lparr>last_error := code\<rparr>) else (addr, s))"

text \<open>
  \<^verbatim>\<open>_getcwd(buffer, maxlen)\<close>: the current working directory, or a null pointer
  when it does not fit \<open>maxlen\<close> characters with its terminator.
\<close>

definition getcwd :: "nat \<Rightarrow> 'c os_state \<Rightarrow> string option" where
  "getcwd maxlen s =
     (if length (current_directory s) < maxlen then Some (current_directory s) else None)"

subsection \<open>The C library functions used\<close>

text \<open>
  \<^verbatim>\<open>strchr\<close> points at the first occurrence of a character, \<^verbatim>\<open>wcsrchr\<close> at the
  last one; both return a null pointer when there is none. A pointer into the string is
  modelled by its offset from the start (the searched character is never NUL here).
\<close>

fun strchr :: "'c list \<Rightarrow> 'c \<Rightarrow> nat option" where
  "strchr [] c = None"
| "strchr (x # xs) c = (if x = c then Some 0 else map_option Suc (strchr xs c))"

fun wcsrchr :: "'c list \<Rightarrow> 'c \<Rightarrow> nat option" where
  "wcsrchr [] c = None"
| "wcsrchr (x # xs) c =
     (case wcsrchr xs c of
        Some i \<Rightarrow> Some (Suc i)
      | None \<Rightarrow> if x = c then Some 0 else None)"

subsection \<open>The class\<close>

record SharedObjectLoader =
  shared_object :: hmodule

text \<open>
  \<^verbatim>\<open>THROW_IE_EXCEPTION\<close> throws one exception type whose message is streamed
  together; the three messages of the class are the three constructors, with the values
  streamed into each.
\<close>

datatype 'c ie_exception =
    CannotLoadLibrary "'c list" dword string
  | UnknownLibrary string
  | CannotLocateMethod string dword

text \<open>
  A member function ends by returning, by throwing, or in one of two ways that have no
  defined behaviour: by taking the front element of an empty vector, and by streaming
  into the message the null pointer that \<^verbatim>\<open>_getcwd\<close> has returned, which the
  constructors do not check for.
\<close>

datatype 'c abort =
    Throw "'c ie_exception"
  | FrontOfEmptyVector
  | NullStreamed

text \<open>
  \<^verbatim>\<open>ExcludeCurrentDirectory\<close> calls the primitives through their generic names, which
  stand for the narrow or the wide entry point depending on how the file is compiled.
  Either length query answers at most 1 exactly for an unset or an empty directory, so
  one definition covers both.
\<close>

definition ExcludeCurrentDirectory :: "'c os_env \<Rightarrow> 'c os_state \<Rightarrow> 'c os_state" where
  "ExcludeCurrentDirectory env s =
     (if fst (GetDllDirectory env 0 s) \<le> 1 then SetDllDirectory [] s else s)"

definition kPathSeparator :: char where
  "kPathSeparator = CHR 0x5C"

text \<open>The separator as \<^verbatim>\<open>wcsrchr\<close> receives it: converted to \<^verbatim>\<open>wchar_t\<close>.\<close>

definition widen :: "char \<Rightarrow> wchar" where
  "widen c = of_nat (of_char c)"

definition FindLastPathSeparatorA :: "string \<Rightarrow> nat option" where
  "FindLastPathSeparatorA path = strchr path kPathSeparator"

definition GetDirnameA :: "string \<Rightarrow> string" where
  "GetDirnameA path =
     (case FindLastPathSeparatorA path of
        None \<Rightarrow> path
      | Some pos \<Rightarrow> take pos path)"

text \<open>
  \<^verbatim>\<open>IncludePluginDirectoryA\<close> asks \<^verbatim>\<open>GetDllDirectoryW\<close> for the size of the
  buffer and lets \<^verbatim>\<open>GetDllDirectoryA\<close> fill it; the string it returns is what
  the buffer, filled with zeros by \<^verbatim>\<open>resize\<close>, holds afterwards.
\<close>

definition IncludePluginDirectoryA ::
  "char os_env \<Rightarrow> string \<Rightarrow> char os_state \<Rightarrow> char abort + string \<times> char os_state" where
  "IncludePluginDirectoryA env path s =
     (let nBufferLength = GetDllDirectoryW_required env s in
      if nBufferLength = 0 then Inl FrontOfEmptyVector
      else
        let lpBuffer = snd (GetDllDirectory env nBufferLength s);
            dirname = GetDirnameA path;
            s' = (if dirname \<noteq> [] then SetDllDirectory dirname s else s)
        in Inr (lpBuffer, s'))"

definition FindLastPathSeparatorW :: "wstring \<Rightarrow> nat option" where
  "FindLastPathSeparatorW path = wcsrchr path (widen kPathSeparator)"

definition GetDirnameW :: "wstring \<Rightarrow> wstring" where
  "GetDirnameW path =
     (case FindLastPathSeparatorW path of
        None \<Rightarrow> path
      | Some pos \<Rightarrow> take pos path)"

definition IncludePluginDirectoryW ::
  "wchar os_env \<Rightarrow> wstring \<Rightarrow> wchar os_state \<Rightarrow> wchar abort + wstring \<times> wchar os_state" where
  "IncludePluginDirectoryW env path s =
     (let nBufferLength = fst (GetDllDirectory env 0 s) in
      if nBufferLength = 0 then Inl FrontOfEmptyVector
      else
        let lpBuffer = snd (GetDllDirectory env nBufferLength s);
            dirname = GetDirnameW path;
            s' = (if dirname \<noteq> [] then SetDllDirectory dirname s else s)
        in Inr (lpBuffer, s'))"

text \<open>
  The constructors. \<open>ConstructW\<close> is \<^verbatim>\<open>SharedObjectLoader(LPCWSTR)\<close> and
  \<open>ConstructA\<close> is \<^verbatim>\<open>SharedObjectLoader(LPCSTR)\<close>. A constructor that throws
  leaves no object behind: the result is \<open>Inl\<close>. The message of the exception takes
  the working directory from \<^verbatim>\<open>_getcwd(cwd, sizeof(cwd))\<close> with a buffer of 1024
  characters; when that call returns a null pointer, the pointer is streamed as it is and
  the constructor ends in \<open>NullStreamed\<close> instead of the exception.
\<close>

definition ConstructW ::
  "wchar os_env \<Rightarrow> wstring \<Rightarrow> wchar os_state \<Rightarrow>
     (wchar abort + SharedObjectLoader) \<times> wchar os_state" where
  "ConstructW env pluginName s =
     (let s1 = ExcludeCurrentDirectory env s in
      case IncludePluginDirectoryW env pluginName s1 of
        Inl a \<Rightarrow> (Inl a, s1)
      | Inr (oldDir, s2) \<Rightarrow>
          let (h, s3) = LoadLibrary env pluginName s2;
              s4 = SetDllDirectory oldDir s3
          in if h = 0
             then (case getcwd 1024 s4 of
                     None \<Rightarrow> (Inl NullStreamed, s4)
                   | Some cwd \<Rightarrow>
                       (Inl (Throw (CannotLoadLibrary pluginName (GetLastError s4) cwd)), s4))
             else (Inr \<lparr>shared_object = h\<rparr>, s4))"

definition ConstructA ::
  "char os_env \<Rightarrow> string \<Rightarrow> char os_state \<Rightarrow>
     (char abort + SharedObjectLoader) \<times> char os_state" where
  "ConstructA env pluginName s =
     (let s1 = ExcludeCurrentDirectory env s in
      case IncludePluginDirectoryA env pluginName s1 of
        Inl a \<Rightarrow> (Inl a, s1)
      | Inr (oldDir, s2) \<Rightarrow>
          let (h, s3) = LoadLibrary env pluginName s2;
              s4 = SetDllDirectory oldDir s3
          in if h = 0
             then (case getcwd 1024 s4 of
                     None \<Rightarrow> (Inl NullStreamed, s4)
                   | Some cwd \<Rightarrow>
                       (Inl (Throw (CannotLoadLibrary pluginName (GetLastError s4) cwd)), s4))
             else (Inr \<lparr>shared_object = h\<rparr>, s4))"

text \<open>The destructor: \<^verbatim>\<open>FreeLibrary(shared_object)\<close>, result ignored.\<close>

definition Destroy :: "'c os_env \<Rightarrow> SharedObjectLoader \<Rightarrow> 'c os_state \<Rightarrow> 'c os_state" where
  "Destroy env this s = snd (FreeLibrary env (shared_object this) s)"

text \<open>
  \<^verbatim>\<open>get_symbol\<close> is a \<^verbatim>\<open>const\<close> member; the object is returned next to the
  result so that what the call does to it can be stated.
\<close>

definition get_symbol ::
  "'c os_env \<Rightarrow> SharedObjectLoader \<Rightarrow> string \<Rightarrow> 'c os_state \<Rightarrow>
     ('c abort + farproc) \<times> SharedObjectLoader \<times> 'c os_state" where
  "get_symbol env this symbolName s =
     (if shared_object this = 0
      then (Inl (Throw (UnknownLibrary symbolName)), this, s)
      else
        let (procAddr, s') = GetProcAddress env (shared_object this) symbolName s in
        if procAddr = 0
        then (Inl (Throw (CannotLocateMethod symbolName (GetLastError s'))), this, s')
        else (Inr procAddr, this, s'))"

subsection \<open>Using a loader\<close>

text \<open>
  A caller resolves any number of symbols on one object; an exception of one call does not
  end the object, so the calls are run in order and their outcomes collected.
\<close>

fun get_symbols ::
  "'c os_env \<Rightarrow> SharedObjectLoader \<Rightarrow> string list \<Rightarrow> 'c os_state \<Rightarrow>
     ('c abort + farproc) list \<times> SharedObjectLoader \<times> 'c os_state" where
  "get_symbols env this [] s = ([], this, s)"
| "get_symbols env this (n # ns) s =
     (let (r, this', s') = get_symbol env this n s;
          (rs, this'', s'') = get_symbols env this' ns s'
      in (r # rs, this'', s''))"


definition scoped_useW ::
  "wchar os_env \<Rightarrow> wstring \<Rightarrow> string list \<Rightarrow> wchar os_state \<Rightarrow>
     (wchar abort + (wchar abort + farproc) list) \<times> wchar os_state" where
  "scoped_useW env pluginName names s =
     (case ConstructW env pluginName s of
        (Inl a, s1) \<Rightarrow> (Inl a, s1)
      | (Inr this, s1) \<Rightarrow>
          let (rs, this', s2) = get_symbols env this names s1
          in (Inr rs, Destroy env this' s2))"

text \<open>
  The class declares no copy constructor and no copy assignment, so the implicit ones
  exist: a copy holds the same handle, and it is destroyed on its own. The second scope
  makes a copy of its loader; the copy is destroyed first, then the original.
\<close>

definition copy_loader :: "SharedObjectLoader \<Rightarrow> SharedObjectLoader" where
  "copy_loader this = \<lparr>shared_object = shared_object this\<rparr>"

definition scoped_copyA ::
  "char os_env \<Rightarrow> string \<Rightarrow> char os_state \<Rightarrow> (char abort + unit) \<times> char os_state" where
  "scoped_copyA env pluginName s =
     (case ConstructA env pluginName s of
        (Inl a, s1) \<Rightarrow> (Inl a, s1)
      | (Inr this, s1) \<Rightarrow>
          (Inr (), Destroy env this (Destroy env (copy_loader this) s1)))"

subsection \<open>Reading the log\<close>

text \<open>The calls made between an earlier state and a later one.\<close>

definition calls_since :: "'c os_state \<Rightarrow> 'c os_state \<Rightarrow> 'c os_call list" where
  "calls_since s s' = drop (length (calls s)) (calls s')"

text \<open>
  The directory given to the set-search-directory call that comes directly before the
  first load call, if the load call has such a predecessor.
\<close>

fun dir_before_load :: "'c os_call list \<Rightarrow> 'c list option" where
  "dir_before_load (SetDllDirectoryCall d # LoadLibraryCall p h # cs) = Some d"
| "dir_before_load (LoadLibraryCall p h # cs) = None"
| "dir_before_load (c # cs) = dir_before_load cs"
| "dir_before_load [] = None"

text \<open>The unload calls of a log, with their results.\<close>

fun free_calls :: "'c os_call list \<Rightarrow> (hmodule \<times> bool) list" where
  "free_calls [] = []"
| "free_calls (FreeLibraryCall h ok # cs) = (h, ok) # free_calls cs"
| "free_calls (c # cs) = free_calls cs"

text \<open>The load calls of a log, with their results.\<close>

fun load_calls :: "'c os_call list \<Rightarrow> ('c list \<times> hmodule) list" where
  "load_calls [] = []"
| "load_calls (LoadLibraryCall p h # cs) = (p, h) # load_calls cs"
| "load_calls (c # cs) = load_calls cs"

subsection \<open>Notions of the specification\<close>

text \<open>
  The parent directory of a path in the words of the specification: the prefix of the
  path up to its last separator. It is defined without reference to the functions of
  the class, by cutting the reversed path at its first separator.
\<close>

definition prefix_up_to_last :: "'c \<Rightarrow> 'c list \<Rightarrow> 'c list" where
  "prefix_up_to_last sep path = rev (tl (dropWhile (\<lambda>c. c \<noteq> sep) (rev path)))"

text \<open>
  What the operating system promises of a failed load: the error code it reports is not
  zero.
\<close>

definition failed_load_reports_code :: "'c os_env \<Rightarrow> bool" where
  "failed_load_reports_code env \<longleftrightarrow>
     (\<forall>dir cwd path. fst (find_module env dir cwd path) = 0 \<longrightarrow>
        snd (find_module env dir cwd path) \<noteq> 0)"

subsection \<open>A concrete environment\<close>

text \<open>
  An environment with one module (handle \<open>1\<close>, one export \<open>CreatePlugin\<close>) at a given
  path; every other load fails with code 126 and every other resolution with code 127.
  The code page is a single-byte one. The process starts with no search directory
  configured.
\<close>

definition one_module_env :: "'c list \<Rightarrow> 'c os_env" where
  "one_module_env plugin =
     \<lparr>find_module = (\<lambda>dir cwd path. if path = plugin then (1, 0) else (0, 126)),
      find_export = (\<lambda>h name. if h = 1 \<and> name = ''CreatePlugin'' then (4096, 0) else (0, 127)),
      invalid_handle_code = 6,
      unset_reports_zero = False,
      lead_byte = (\<lambda>c. False)\<rparr>"

definition fresh_process :: "string \<Rightarrow> 'c os_state" where
  "fresh_process cwd =
     \<lparr>dll_directory = None, last_error = 0, current_directory = cwd,
      refcount = (\<lambda>h. 0), calls = []\<rparr>"

definition configured_process :: "string \<Rightarrow> 'c list \<Rightarrow> 'c os_state" where
  "configured_process cwd dir = (fresh_process cwd)\<lparr>dll_directory := Some dir\<rparr>"

text \<open>Three plugin paths: two separators, one separator, and a separator in front.\<close>

definition deep_path :: string where
  "deep_path = ''C:'' @ [kPathSeparator] @ ''plugins'' @ [kPathSeparator] @ ''x.dll''"

definition short_path :: string where
  "short_path = ''plugins'' @ [kPathSeparator] @ ''x.dll''"

definition rooted_path :: string where
  "rooted_path = [kPathSeparator] @ ''x.dll''"

text \<open>A working directory of 1024 characters.\<close>

definition long_cwd :: string where
  "long_cwd = replicate 1024 (CHR ''d'')"

text \<open>A path with a forward slash and no separator.\<close>

definition slash_path :: string where
  "slash_path = ''plugins/x.dll''"

text \<open>The same environment, but with the length query answering zero for an unset directory.\<close>

definition zero_length_env :: "char os_env" where
  "zero_length_env = (one_module_env short_path)\<lparr>unset_reports_zero := True\<rparr>"

text \<open>
  The same environment in a double-byte code page with the lead byte \<open>0x83\<close>, and a
  search directory of one double-byte character.
\<close>

definition double_byte_env :: "char os_env" where
  "double_byte_env = (one_module_env short_path)\<lparr>lead_byte := (\<lambda>c. c = CHR 0x83)\<rparr>"

definition double_byte_directory :: string where
  "double_byte_directory = [CHR 0x83, CHR 0x76]"

subsection \<open>The calls of one construction\<close>

text \<open>The search directory as a string: empty while none is configured.\<close>

definition directory_in_force :: "'c os_state \<Rightarrow> 'c list" where
  "directory_in_force s = (case dll_directory s of None \<Rightarrow> [] | Some d \<Rightarrow> d)"

text \<open>
  What the narrow constructor reads back as the directory to restore: the directory in
  force if it fits the buffer sized in wide characters, the empty string otherwise.
\<close>

definition saved_narrow :: "char os_env \<Rightarrow> char os_state \<Rightarrow> string" where
  "saved_narrow env s =
     (if length (directory_in_force s) \<le> wide_length (lead_byte env) (directory_in_force s)
      then directory_in_force s else [])"

text \<open>
  Both constructors make the same calls once the saved directory \<open>old\<close> and the dirname
  of the path are computed: the exclusion call if the search directory is unset or empty,
  the call for the dirname unless it is empty, the load, and the call with the saved
  directory.
\<close>

definition construct_log ::
  "'c os_env \<Rightarrow> 'c list \<Rightarrow> 'c list \<Rightarrow> 'c list \<Rightarrow> 'c os_state \<Rightarrow> 'c os_call list" where
  "construct_log env old dirname path s =
     (if dll_directory s = None \<or> dll_directory s = Some [] then [SetDllDirectoryCall []] else []) @
     (if dirname \<noteq> [] then [SetDllDirectoryCall dirname] else []) @
     [LoadLibraryCall path
        (fst (find_module env
                (Some (if dirname \<noteq> [] then dirname else directory_in_force s))
                (current_directory s) path)),
      SetDllDirectoryCall old]"

text \<open>
  The whole effect of one construction in one expression: the outcome, and the state
  afterwards. Both constructors are proved equal to it below.
\<close>

definition construct_summary ::
  "'c os_env \<Rightarrow> 'c list \<Rightarrow> 'c list \<Rightarrow> 'c list \<Rightarrow> 'c os_state \<Rightarrow>
     ('c abort + SharedObjectLoader) \<times> 'c os_state" where
  "construct_summary env old dirname path s =
     (let (h, code) = find_module env
                        (Some (if dirname \<noteq> [] then dirname else directory_in_force s))
                        (current_directory s) path
      in (if h = 0
          then (case getcwd 1024 s of
                  None \<Rightarrow> Inl NullStreamed
                | Some cwd \<Rightarrow> Inl (Throw (CannotLoadLibrary path code cwd)))
          else Inr \<lparr>shared_object = h\<rparr>,
          s\<lparr>dll_directory := Some old,
            last_error := (if h = 0 then code else last_error s),
            refcount := (if h = 0 then refcount s else (refcount s)(h := Suc (refcount s h))),
            calls := calls s @ construct_log env old dirname path s\<rparr>))"

section \<open>Properties\<close>

subsection \<open>Unfolding sets\<close>

lemmas model_defs =
  ConstructA_def ConstructW_def IncludePluginDirectoryA_def IncludePluginDirectoryW_def
  ExcludeCurrentDirectory_def GetDllDirectory_def GetDllDirectoryW_required_def
  SetDllDirectory_def LoadLibrary_def
  FreeLibrary_def GetProcAddress_def GetLastError_def getcwd_def
  GetDirnameA_def GetDirnameW_def FindLastPathSeparatorA_def FindLastPathSeparatorW_def
  get_symbol_def Destroy_def Let_def

lemmas example_defs =
  one_module_env_def fresh_process_def configured_process_def calls_since_def
  deep_path_def short_path_def rooted_path_def slash_path_def kPathSeparator_def widen_def
  prefix_up_to_last_def zero_length_env_def double_byte_env_def double_byte_directory_def
  long_cwd_def

subsection \<open>Searching a string\<close>

lemma strchr_None: "strchr xs c = None \<longleftrightarrow> c \<notin> set xs"
  by (induction xs) auto

lemma wcsrchr_None: "wcsrchr xs c = None \<longleftrightarrow> c \<notin> set xs"
  by (induction xs) (auto split: option.splits)

lemma strchr_first: "c \<notin> set xs \<Longrightarrow> strchr (xs @ c # ys) c = Some (length xs)"
  by (induction xs) auto

lemma wcsrchr_last: "c \<notin> set ys \<Longrightarrow> wcsrchr (xs @ c # ys) c = Some (length xs)"
  by (induction xs) (auto simp: wcsrchr_None split: option.splits)

lemma prefix_up_to_last_eq:
  "sep \<notin> set rest \<Longrightarrow> prefix_up_to_last sep (dir @ sep # rest) = dir"
proof -
  assume "sep \<notin> set rest"
  then have "dropWhile (\<lambda>c. c \<noteq> sep) (rev rest @ sep # rev dir) = sep # rev dir"
    by (subst dropWhile_append2) auto
  then show ?thesis by (simp add: prefix_up_to_last_def)
qed

lemma prefix_up_to_last_decomp:
  "sep \<in> set path \<Longrightarrow>
     \<exists>rest. path = prefix_up_to_last sep path @ sep # rest \<and> sep \<notin> set rest"
proof -
  assume "sep \<in> set path"
  then have "sep \<in> set (rev path)" by simp
  then obtain ys zs where r: "rev path = ys @ sep # zs" and n: "sep \<notin> set ys"
    by (meson split_list_first)
  from r have "rev (rev path) = rev (ys @ sep # zs)" by simp
  then have p: "path = rev zs @ sep # rev ys" by simp
  from n have "prefix_up_to_last sep (rev zs @ sep # rev ys) = rev zs"
    by (simp add: prefix_up_to_last_eq)
  with p n show ?thesis by auto
qed

subsection \<open>The dirname of a path\<close>

lemma GetDirnameA_none: "kPathSeparator \<notin> set path \<Longrightarrow> GetDirnameA path = path"
  by (simp add: GetDirnameA_def FindLastPathSeparatorA_def strchr_None [THEN iffD2])

lemma GetDirnameW_none: "widen kPathSeparator \<notin> set path \<Longrightarrow> GetDirnameW path = path"
  by (simp add: GetDirnameW_def FindLastPathSeparatorW_def wcsrchr_None [THEN iffD2])

text \<open>The narrow function cuts at the first separator, the wide one at the last.\<close>

lemma GetDirnameA_first:
  "kPathSeparator \<notin> set dir \<Longrightarrow> GetDirnameA (dir @ kPathSeparator # rest) = dir"
  by (simp add: GetDirnameA_def FindLastPathSeparatorA_def strchr_first)

lemma GetDirnameW_last:
  "widen kPathSeparator \<notin> set rest \<Longrightarrow> GetDirnameW (dir @ widen kPathSeparator # rest) = dir"
  by (simp add: GetDirnameW_def FindLastPathSeparatorW_def wcsrchr_last)

lemma GetDirnameW_prefix:
  "widen kPathSeparator \<in> set path \<Longrightarrow>
     GetDirnameW path = prefix_up_to_last (widen kPathSeparator) path"
  using prefix_up_to_last_decomp [of "widen kPathSeparator" path] GetDirnameW_last
  by metis

lemma GetDirnameA_prefix:
  assumes "kPathSeparator \<in> set path"
    and "kPathSeparator \<notin> set (prefix_up_to_last kPathSeparator path)"
  shows "GetDirnameA path = prefix_up_to_last kPathSeparator path"
proof -
  from assms(1) obtain rest
    where "path = prefix_up_to_last kPathSeparator path @ kPathSeparator # rest"
    using prefix_up_to_last_decomp by metis
  with assms(2) show ?thesis using GetDirnameA_first by metis
qed

subsection \<open>The exclusion step\<close>

lemma Exclude_dir:
  "dll_directory (ExcludeCurrentDirectory env s) = Some (directory_in_force s)"
  by (auto simp: ExcludeCurrentDirectory_def GetDllDirectory_def SetDllDirectory_def
      directory_in_force_def split: option.splits)

lemma Exclude_calls:
  "calls (ExcludeCurrentDirectory env s)
     = calls s @ (if dll_directory s = None \<or> dll_directory s = Some []
                  then [SetDllDirectoryCall []] else [])"
  by (auto simp: ExcludeCurrentDirectory_def GetDllDirectory_def SetDllDirectory_def
      split: option.splits)

lemma Exclude_frame:
  "current_directory (ExcludeCurrentDirectory env s) = current_directory s"
  "last_error (ExcludeCurrentDirectory env s) = last_error s"
  "refcount (ExcludeCurrentDirectory env s) = refcount s"
  by (simp_all add: ExcludeCurrentDirectory_def SetDllDirectory_def)

subsection \<open>The constructors in one step\<close>

text \<open>
  After the exclusion step the search directory is configured, so the length query is
  positive and the branch of the empty buffer is not taken: each constructor is its
  summary, at the directory it reads back and the dirname it computes.
\<close>

lemma ConstructA_summary:
  "ConstructA env path s
     = construct_summary env (saved_narrow env s) (GetDirnameA path) path s"
  by (cases "dll_directory s")
     (simp_all add: ConstructA_def IncludePluginDirectoryA_def construct_summary_def
       construct_log_def Let_def ExcludeCurrentDirectory_def GetDllDirectory_def getcwd_def
       GetDllDirectoryW_required_def saved_narrow_def directory_in_force_def
       GetLastError_def SetDllDirectory_def LoadLibrary_def split: prod.splits)

lemma ConstructW_summary:
  "ConstructW env path s
     = construct_summary env (directory_in_force s) (GetDirnameW path) path s"
  by (cases "dll_directory s")
     (simp_all add: ConstructW_def IncludePluginDirectoryW_def construct_summary_def
       construct_log_def Let_def ExcludeCurrentDirectory_def GetDllDirectory_def getcwd_def
       directory_in_force_def
       GetLastError_def SetDllDirectory_def LoadLibrary_def split: prod.splits)

lemma calls_since_append: "calls s' = calls s @ cs \<Longrightarrow> calls_since s s' = cs"
  by (simp add: calls_since_def)

lemma summary_since:
  "calls_since s (snd (construct_summary env old dirname path s))
     = construct_log env old dirname path s"
  by (simp add: construct_summary_def Let_def calls_since_def split: prod.splits)

lemma summary_dir:
  "dll_directory (snd (construct_summary env old dirname path s)) = Some old"
  by (simp add: construct_summary_def Let_def split: prod.splits)

lemma ConstructA_since:
  "calls_since s (snd (ConstructA env path s))
     = construct_log env (saved_narrow env s) (GetDirnameA path) path s"
  by (simp add: ConstructA_summary summary_since)

lemma ConstructW_since:
  "calls_since s (snd (ConstructW env path s))
     = construct_log env (directory_in_force s) (GetDirnameW path) path s"
  by (simp add: ConstructW_summary summary_since)

lemma dir_before_load_log:
  "dir_before_load (construct_log env old dirname path s) =
     (if dirname \<noteq> [] then Some dirname
      else if dll_directory s = None \<or> dll_directory s = Some [] then Some [] else None)"
  by (simp add: construct_log_def)

lemma load_calls_log:
  "load_calls (construct_log env old dirname path s) =
     [(path, fst (find_module env
                (Some (if dirname \<noteq> [] then dirname else directory_in_force s))
                (current_directory s) path))]"
  by (simp add: construct_log_def)

lemma free_calls_log: "free_calls (construct_log env old dirname path s) = []"
  by (simp add: construct_log_def)

lemma failed_load_code:
  "failed_load_reports_code env \<Longrightarrow> find_module env dir cwd path = (0, code) \<Longrightarrow> code \<noteq> 0"
  unfolding failed_load_reports_code_def by (metis fst_conv snd_conv)

text \<open>
  The outcome of a construction. There is one load call, with the search directory set
  to the dirname of the path, or left as it was when the dirname is empty. When the load
  returns a handle, the constructor returns a loader with that handle. When it returns
  null, the constructor throws, and the exception carries the code the load reported and
  the working directory, provided the working directory is shorter than 1024 characters;
  otherwise the constructor streams a null pointer.
\<close>

lemma summary_outcome:
  assumes "construct_summary env old dirname path s = (r, s')"
  defines "found \<equiv> find_module env
                      (Some (if dirname \<noteq> [] then dirname else directory_in_force s))
                      (current_directory s) path"
  shows "load_calls (calls_since s s') = [(path, fst found)]"
    and "fst found \<noteq> 0 \<Longrightarrow> r = Inr \<lparr>shared_object = fst found\<rparr>"
    and "fst found = 0 \<Longrightarrow> length (current_directory s) < 1024 \<Longrightarrow>
           r = Inl (Throw (CannotLoadLibrary path (snd found) (current_directory s)))
           \<and> last_error s' = snd found"
    and "fst found = 0 \<Longrightarrow> \<not> length (current_directory s) < 1024 \<Longrightarrow> r = Inl NullStreamed"
  using assms
  by (auto simp: construct_summary_def Let_def calls_since_def load_calls_log getcwd_def
      split: prod.splits if_splits)

lemma summary_loaded:
  assumes "fst (construct_summary env old dirname path s) = Inr this"
  shows "shared_object this \<noteq> 0"
    and "refcount (snd (construct_summary env old dirname path s))
           = (refcount s)(shared_object this := Suc (refcount s (shared_object this)))"
    and "load_calls (construct_log env old dirname path s) = [(path, shared_object this)]"
  using assms
  by (auto simp: construct_summary_def Let_def load_calls_log
      split: prod.splits if_splits option.splits)

lemma summary_failed:
  assumes "fst (construct_summary env old dirname path s) = Inl a"
  shows "a = NullStreamed \<or> (\<exists>code cwd. a = Throw (CannotLoadLibrary path code cwd))"
    and "refcount (snd (construct_summary env old dirname path s)) = refcount s"
    and "a \<noteq> FrontOfEmptyVector"
  using assms
  by (auto simp: construct_summary_def Let_def split: prod.splits if_splits option.splits)

lemma summary_failed_iff:
  "(\<exists>a. fst (construct_summary env old dirname path s) = Inl a) \<longleftrightarrow>
     fst (find_module env (Some (if dirname \<noteq> [] then dirname else directory_in_force s))
            (current_directory s) path) = 0"
  by (auto simp: construct_summary_def Let_def split: prod.splits if_splits option.splits)

subsection \<open>Resolving symbols\<close>

lemma get_symbol_frame:
  assumes "get_symbol env this n s = (r, this', s')"
  shows "this' = this" and "refcount s' = refcount s" and "calls s' = calls s"
    and "dll_directory s' = dll_directory s" and "current_directory s' = current_directory s"
    and "shared_object this \<noteq> 0 \<Longrightarrow> r \<noteq> Inl (Throw (UnknownLibrary m))"
  using assms
  by (auto simp: get_symbol_def GetProcAddress_def Let_def split: prod.splits if_splits)

lemma get_symbols_frame:
  "get_symbols env this names s = (rs, this', s') \<Longrightarrow>
     this' = this \<and> refcount s' = refcount s \<and> calls s' = calls s
     \<and> dll_directory s' = dll_directory s
     \<and> (shared_object this \<noteq> 0 \<longrightarrow> Inl (Throw (UnknownLibrary m)) \<notin> set rs)"
proof (induction names arbitrary: s rs this' s')
  case Nil
  then show ?case by simp
next
  case (Cons n ns)
  obtain r t1 s1 where one: "get_symbol env this n s = (r, t1, s1)"
    by (cases "get_symbol env this n s") auto
  obtain rs2 t2 s2 where rest: "get_symbols env t1 ns s1 = (rs2, t2, s2)"
    by (cases "get_symbols env t1 ns s1") auto
  from one have t1: "t1 = this" by (rule get_symbol_frame)
  from Cons.prems one rest have res: "rs = r # rs2" "this' = t2" "s' = s2"
    by simp_all
  from rest t1 have "get_symbols env this ns s1 = (rs2, t2, s2)"
    by simp
  then have ih: "t2 = this \<and> refcount s2 = refcount s1 \<and> calls s2 = calls s1
     \<and> dll_directory s2 = dll_directory s1
     \<and> (shared_object this \<noteq> 0 \<longrightarrow> Inl (Throw (UnknownLibrary m)) \<notin> set rs2)"
    by (rule Cons.IH)
  show ?case
    using ih res get_symbol_frame [OF one] by auto
qed

section \<open>The claims\<close>

subsection \<open>C1: the directory set before the load\<close>

text \<open>
  C1 says that for every path with at least one separator the directory passed to the
  set-search-directory primitive before the load is the prefix of the path up to its last
  separator. As stated this fails: for a path whose only separator is its first character
  the prefix is empty, the guard \<^verbatim>\<open>if (!dirname.empty())\<close> skips the call, and with
  a search directory already configured no directory is passed before the load at all.
\<close>

theorem rooted_path_passes_no_directory:
  "kPathSeparator \<in> set rooted_path \<and>
   dir_before_load (calls_since (configured_process ''C:/work'' ''C:/deps'')
       (snd (ConstructA (one_module_env rooted_path) rooted_path
              (configured_process ''C:/work'' ''C:/deps'')))) = None \<and>
   dir_before_load (calls_since (configured_process ''C:/work'' ''C:/deps'')
       (snd (ConstructA (one_module_env rooted_path) rooted_path
              (configured_process ''C:/work'' ''C:/deps''))))
     \<noteq> Some (prefix_up_to_last kPathSeparator rooted_path)"
  by (simp add: model_defs example_defs)

text \<open>
  C1 as amended: for every path with at least one separator whose prefix up to the last
  separator is not empty, the wide constructor passes exactly that prefix to the
  set-search-directory primitive directly before the load; the narrow constructor does so
  when that prefix contains no further separator.
\<close>

theorem parent_directory_passed_before_load:
  "(widen kPathSeparator \<in> set wpath \<and> prefix_up_to_last (widen kPathSeparator) wpath \<noteq> [] \<longrightarrow>
      dir_before_load (calls_since ws (snd (ConstructW wenv wpath ws)))
        = Some (prefix_up_to_last (widen kPathSeparator) wpath))
   \<and> (kPathSeparator \<in> set path \<and> prefix_up_to_last kPathSeparator path \<noteq> []
        \<and> kPathSeparator \<notin> set (prefix_up_to_last kPathSeparator path) \<longrightarrow>
      dir_before_load (calls_since s (snd (ConstructA env path s)))
        = Some (prefix_up_to_last kPathSeparator path))"
  by (simp add: ConstructA_since ConstructW_since dir_before_load_log GetDirnameW_prefix
      GetDirnameA_prefix)

theorem parent_directory_passed_before_load_witness:
  "widen kPathSeparator \<in> set (map widen deep_path)
   \<and> prefix_up_to_last (widen kPathSeparator) (map widen deep_path) \<noteq> []
   \<and> dir_before_load (calls_since (fresh_process ''C:/work'')
        (snd (ConstructW (one_module_env (map widen deep_path)) (map widen deep_path)
               (fresh_process ''C:/work''))))
       = Some (map widen (''C:'' @ [kPathSeparator] @ ''plugins''))
   \<and> kPathSeparator \<in> set short_path
   \<and> prefix_up_to_last kPathSeparator short_path \<noteq> []
   \<and> kPathSeparator \<notin> set (prefix_up_to_last kPathSeparator short_path)
   \<and> dir_before_load (calls_since (fresh_process ''C:/work'')
        (snd (ConstructA (one_module_env short_path) short_path (fresh_process ''C:/work''))))
       = Some ''plugins''"
proof -
  have w: "widen kPathSeparator \<in> set (map widen deep_path)
      \<and> prefix_up_to_last (widen kPathSeparator) (map widen deep_path) \<noteq> []"
    by (simp add: example_defs)
  have wp: "prefix_up_to_last (widen kPathSeparator) (map widen deep_path)
      = map widen (''C:'' @ [kPathSeparator] @ ''plugins'')"
    by (simp add: example_defs)
  have n: "kPathSeparator \<in> set short_path
      \<and> prefix_up_to_last kPathSeparator short_path \<noteq> []
      \<and> kPathSeparator \<notin> set (prefix_up_to_last kPathSeparator short_path)"
    by (simp add: example_defs)
  have np: "prefix_up_to_last kPathSeparator short_path = ''plugins''"
    by (simp add: example_defs)
  show ?thesis
    using parent_directory_passed_before_load
      [of "map widen deep_path" "fresh_process ''C:/work''"
        "one_module_env (map widen deep_path)" short_path "fresh_process ''C:/work''"
        "one_module_env short_path"] w n
    by (simp only: wp np) simp
qed


subsection \<open>C2: a failed load is thrown\<close>

text \<open>
  What the narrow constructor does with the result of the load, for every path and state.
  The load runs with the dirname of the path as search directory, or with the directory
  in force when the dirname is empty; \<open>found\<close> is what it finds.
\<close>

lemma load_outcome:
  assumes "ConstructA env path s = (r, s')"
  defines "found \<equiv> find_module env
                      (Some (if GetDirnameA path \<noteq> [] then GetDirnameA path
                             else directory_in_force s))
                      (current_directory s) path"
  shows "load_calls (calls_since s s') = [(path, fst found)]"
    and "fst found \<noteq> 0 \<Longrightarrow> r = Inr \<lparr>shared_object = fst found\<rparr>"
    and "fst found = 0 \<Longrightarrow> length (current_directory s) < 1024 \<Longrightarrow>
           r = Inl (Throw (CannotLoadLibrary path (snd found) (current_directory s)))
           \<and> last_error s' = snd found"
    and "fst found = 0 \<Longrightarrow> \<not> length (current_directory s) < 1024 \<Longrightarrow> r = Inl NullStreamed"
    and "fst found = 0 \<Longrightarrow> failed_load_reports_code env \<Longrightarrow> snd found \<noteq> 0"
proof -
  note summary = assms(1) [unfolded ConstructA_summary]
  show "load_calls (calls_since s s') = [(path, fst found)]"
    unfolding found_def by (rule summary_outcome(1) [OF summary])
  show "fst found \<noteq> 0 \<Longrightarrow> r = Inr \<lparr>shared_object = fst found\<rparr>"
    unfolding found_def by (rule summary_outcome(2) [OF summary])
  show "fst found = 0 \<Longrightarrow> length (current_directory s) < 1024 \<Longrightarrow>
           r = Inl (Throw (CannotLoadLibrary path (snd found) (current_directory s)))
           \<and> last_error s' = snd found"
    unfolding found_def by (rule summary_outcome(3) [OF summary])
  show "fst found = 0 \<Longrightarrow> \<not> length (current_directory s) < 1024 \<Longrightarrow> r = Inl NullStreamed"
    unfolding found_def by (rule summary_outcome(4) [OF summary])
  show "fst found = 0 \<Longrightarrow> failed_load_reports_code env \<Longrightarrow> snd found \<noteq> 0"
    unfolding found_def failed_load_reports_code_def by blast
qed

text \<open>
  So, while the working directory is shorter than 1024 characters, the constructor throws
  exactly when the load returns a null handle, and the exception carries the code the
  load reported, which is also the last error code afterwards, and the working directory.
\<close>

lemma throws_iff_load_fails:
  assumes "ConstructA env path s = (r, s')" and "length (current_directory s) < 1024"
  shows "(\<exists>e. r = Inl (Throw e)) \<longleftrightarrow> load_calls (calls_since s s') = [(path, 0)]"
proof -
  let ?found = "find_module env
                      (Some (if GetDirnameA path \<noteq> [] then GetDirnameA path
                             else directory_in_force s))
                      (current_directory s) path"
  note out = load_outcome [OF assms(1)]
  show ?thesis
  proof (cases "fst ?found = 0")
    case True
    with out(1) out(3) assms(2) show ?thesis by auto
  next
    case False
    with out(1) out(2) show ?thesis by auto
  qed
qed

text \<open>The wide constructor has the same outcome.\<close>

lemma wide_load_outcome:
  assumes "ConstructW env path s = (r, s')"
  defines "found \<equiv> find_module env
                      (Some (if GetDirnameW path \<noteq> [] then GetDirnameW path
                             else directory_in_force s))
                      (current_directory s) path"
  shows "load_calls (calls_since s s') = [(path, fst found)]"
    and "fst found \<noteq> 0 \<Longrightarrow> r = Inr \<lparr>shared_object = fst found\<rparr>"
    and "fst found = 0 \<Longrightarrow> length (current_directory s) < 1024 \<Longrightarrow>
           r = Inl (Throw (CannotLoadLibrary path (snd found) (current_directory s)))
           \<and> last_error s' = snd found"
    and "fst found = 0 \<Longrightarrow> \<not> length (current_directory s) < 1024 \<Longrightarrow> r = Inl NullStreamed"
proof -
  note summary = assms(1) [unfolded ConstructW_summary]
  show "load_calls (calls_since s s') = [(path, fst found)]"
    unfolding found_def by (rule summary_outcome(1) [OF summary])
  show "fst found \<noteq> 0 \<Longrightarrow> r = Inr \<lparr>shared_object = fst found\<rparr>"
    unfolding found_def by (rule summary_outcome(2) [OF summary])
  show "fst found = 0 \<Longrightarrow> length (current_directory s) < 1024 \<Longrightarrow>
           r = Inl (Throw (CannotLoadLibrary path (snd found) (current_directory s)))
           \<and> last_error s' = snd found"
    unfolding found_def by (rule summary_outcome(3) [OF summary])
  show "fst found = 0 \<Longrightarrow> \<not> length (current_directory s) < 1024 \<Longrightarrow> r = Inl NullStreamed"
    unfolding found_def by (rule summary_outcome(4) [OF summary])
qed

text \<open>
  C2 says that the constructor throws exactly when the load primitive returns a null
  handle, that the exception carries the error code of the operating system and the
  current working directory, and that the code is not zero for a path that does not
  exist. The code misses one case. It reads the working directory with
  \<^verbatim>\<open>_getcwd(cwd, sizeof(cwd))\<close> into 1024 characters and streams the result
  without a check; for a working directory of 1024 characters or more the result is a
  null pointer, and what follows has no defined behaviour: no exception with the working
  directory is thrown. Here the working directory has 1024 characters, the load of a path
  that does not exist returns a null handle, and the constructor ends by streaming the
  null pointer.
\<close>

theorem long_working_directory_streams_null:
  "length (current_directory (fresh_process long_cwd :: char os_state)) = 1024
   \<and> getcwd 1024 (fresh_process long_cwd :: char os_state) = None
   \<and> load_calls (calls_since (fresh_process long_cwd)
        (snd (ConstructA (one_module_env short_path) ''missing.dll'' (fresh_process long_cwd))))
      = [(''missing.dll'', 0)]
   \<and> fst (ConstructA (one_module_env short_path) ''missing.dll'' (fresh_process long_cwd))
      = Inl NullStreamed"
  by (simp add: model_defs example_defs)

text \<open>With a working directory that fits, the same load ends in the exception.\<close>

lemma short_working_directory_is_carried:
  "fst (ConstructA (one_module_env short_path) ''missing.dll'' (fresh_process ''C:/work''))
     = Inl (Throw (CannotLoadLibrary ''missing.dll'' 126 ''C:/work''))"
  by (simp add: model_defs example_defs)

subsection \<open>C3: resolving a symbol\<close>

text \<open>
  C3: \<^verbatim>\<open>get_symbol\<close> throws when the stored handle is null; otherwise it throws,
  with the error code of the operating system, when the resolution primitive returns
  null; otherwise it returns the address the primitive produced, which is not null. In
  all three cases the loader is unchanged; of the process state only the last error code
  can change, and only when the resolution fails.
\<close>

theorem get_symbol_outcome:
  assumes "get_symbol env this symbolName s = (r, this', s')"
  shows "this' = this
       \<and> dll_directory s' = dll_directory s \<and> refcount s' = refcount s
       \<and> calls s' = calls s \<and> current_directory s' = current_directory s
       \<and> (shared_object this = 0 \<longrightarrow>
             r = Inl (Throw (UnknownLibrary symbolName)) \<and> s' = s)
       \<and> (shared_object this \<noteq> 0
            \<and> fst (find_export env (shared_object this) symbolName) = 0 \<longrightarrow>
             r = Inl (Throw (CannotLocateMethod symbolName (last_error s')))
             \<and> last_error s' = snd (find_export env (shared_object this) symbolName))
       \<and> (shared_object this \<noteq> 0
            \<and> fst (find_export env (shared_object this) symbolName) \<noteq> 0 \<longrightarrow>
             r = Inr (fst (find_export env (shared_object this) symbolName))
             \<and> r \<noteq> Inr 0 \<and> s' = s)"
  using assms
  by (auto simp: get_symbol_def GetProcAddress_def GetLastError_def Let_def
      split: prod.splits if_splits)

theorem get_symbol_outcome_witness:
  "get_symbol (one_module_env short_path) \<lparr>shared_object = 0\<rparr> ''CreatePlugin''
       (fresh_process ''C:/work'')
     = (Inl (Throw (UnknownLibrary ''CreatePlugin'')), \<lparr>shared_object = 0\<rparr>,
        fresh_process ''C:/work'')
   \<and> get_symbol (one_module_env short_path) \<lparr>shared_object = 1\<rparr> ''CreatePlugin''
       (fresh_process ''C:/work'')
     = (Inr 4096, \<lparr>shared_object = 1\<rparr>, fresh_process ''C:/work'')
   \<and> get_symbol (one_module_env short_path) \<lparr>shared_object = 1\<rparr> ''DestroyPlugin''
       (fresh_process ''C:/work'')
     = (Inl (Throw (CannotLocateMethod ''DestroyPlugin'' 127)), \<lparr>shared_object = 1\<rparr>,
        snd (snd (get_symbol (one_module_env short_path) \<lparr>shared_object = 1\<rparr>
          ''DestroyPlugin'' (fresh_process ''C:/work''))))
   \<and> last_error (snd (snd (get_symbol (one_module_env short_path) \<lparr>shared_object = 1\<rparr>
          ''DestroyPlugin'' (fresh_process ''C:/work'')))) = 127
   \<and> calls (snd (snd (get_symbol (one_module_env short_path) \<lparr>shared_object = 1\<rparr>
          ''DestroyPlugin'' (fresh_process ''C:/work'')))) = []"
proof -
  let ?E = "one_module_env short_path :: char os_env"
  let ?S = "fresh_process ''C:/work'' :: char os_state"
  let ?L = "\<lparr>shared_object = 1\<rparr>"
  let ?N = "\<lparr>shared_object = 0\<rparr>"
  obtain r0 t0 s0 where a: "get_symbol ?E ?N ''CreatePlugin'' ?S = (r0, t0, s0)"
    by (cases "get_symbol ?E ?N ''CreatePlugin'' ?S") auto
  obtain r1 t1 s1 where b: "get_symbol ?E ?L ''CreatePlugin'' ?S = (r1, t1, s1)"
    by (cases "get_symbol ?E ?L ''CreatePlugin'' ?S") auto
  obtain r2 t2 s2 where c: "get_symbol ?E ?L ''DestroyPlugin'' ?S = (r2, t2, s2)"
    by (cases "get_symbol ?E ?L ''DestroyPlugin'' ?S") auto
  have e1: "find_export ?E 1 ''CreatePlugin'' = (4096, 0)"
    and e2: "find_export ?E 1 ''DestroyPlugin'' = (0, 127)"
    and e3: "calls ?S = []"
    by (simp_all add: one_module_env_def fresh_process_def)
  from get_symbol_outcome [OF a] have "r0 = Inl (Throw (UnknownLibrary ''CreatePlugin''))"
    "t0 = ?N" "s0 = ?S" by simp_all
  moreover from get_symbol_outcome [OF b] e1 have "r1 = Inr 4096" "t1 = ?L" "s1 = ?S"
    by simp_all
  moreover from get_symbol_outcome [OF c] e2 e3
  have "r2 = Inl (Throw (CannotLocateMethod ''DestroyPlugin'' 127))" "t2 = ?L"
    "last_error s2 = 127" "calls s2 = []"
    by simp_all
  ultimately show ?thesis using a b c by simp
qed

subsection \<open>C4: the search directory is put back\<close>

lemma wide_length_le: "wide_length lead xs \<le> length xs"
  by (induction lead xs rule: wide_length.induct) auto

lemma wide_length_single_byte: "(\<And>c. \<not> lead c) \<Longrightarrow> wide_length lead xs = length xs"
  by (induction lead xs rule: wide_length.induct) auto

lemma saved_narrow_idem:
  "dll_directory s1 = Some (saved_narrow env s) \<Longrightarrow> saved_narrow env s1 = saved_narrow env s"
  by (simp add: saved_narrow_def directory_in_force_def)

text \<open>
  C4 says that for every path, whether the constructor returns or throws, the search
  directory after the call is the one in force directly before the directory of the
  plugin was included. The narrow constructor does not always achieve this.
  \<^verbatim>\<open>IncludePluginDirectoryA\<close> takes the size of its buffer from
  \<^verbatim>\<open>GetDllDirectoryW\<close>, which counts wide characters, and fills it with
  \<^verbatim>\<open>GetDllDirectoryA\<close>, which needs one place for each narrow character;
  \<^verbatim>\<open>IncludePluginDirectoryW\<close> asks \<^verbatim>\<open>GetDllDirectoryW\<close> both times. Where
  the search directory has a double-byte character the buffer is too short, nothing is
  copied, and the constructor sets the empty string where it means to put the directory
  back. Here the directory is one double-byte character: the size asked for is 2, the
  size needed is 3.
\<close>

theorem double_byte_directory_not_restored:
  "dll_directory (ExcludeCurrentDirectory double_byte_env
       (configured_process ''C:/work'' double_byte_directory)) = Some double_byte_directory
   \<and> GetDllDirectoryW_required double_byte_env
       (configured_process ''C:/work'' double_byte_directory) = 2
   \<and> GetDllDirectory double_byte_env 2
       (configured_process ''C:/work'' double_byte_directory) = (3, [])
   \<and> dll_directory (snd (ConstructA double_byte_env short_path
       (configured_process ''C:/work'' double_byte_directory))) = Some []
   \<and> dll_directory (snd (ConstructA double_byte_env ''missing.dll''
       (configured_process ''C:/work'' double_byte_directory))) = Some []"
  by (simp add: model_defs example_defs)

text \<open>
  Whatever was read back is set again directly after the load call, as the last call of
  the constructor, whether it returns or throws; and what is read back is the directory
  in force whenever that directory has as many wide characters as narrow ones, as every
  directory has in a single-byte code page.
\<close>

lemma saved_directory_set_after_load:
  "\<exists>before h.
      calls_since s (snd (ConstructA env path s))
        = before @ [LoadLibraryCall path h, SetDllDirectoryCall (saved_narrow env s)]
      \<and> ((\<exists>a. fst (ConstructA env path s) = Inl a) \<longleftrightarrow> h = 0)
      \<and> dll_directory (snd (ConstructA env path s)) = Some (saved_narrow env s)"
proof -
  let ?dir = "Some (if GetDirnameA path \<noteq> [] then GetDirnameA path else directory_in_force s)"
  let ?h = "fst (find_module env ?dir (current_directory s) path)"
  have log: "calls_since s (snd (ConstructA env path s))
      = ((if dll_directory s = None \<or> dll_directory s = Some []
          then [SetDllDirectoryCall []] else []) @
         (if GetDirnameA path \<noteq> [] then [SetDllDirectoryCall (GetDirnameA path)] else []))
        @ [LoadLibraryCall path ?h, SetDllDirectoryCall (saved_narrow env s)]"
    by (simp add: ConstructA_since construct_log_def)
  have thrown: "(\<exists>a. fst (ConstructA env path s) = Inl a) \<longleftrightarrow> ?h = 0"
    by (simp only: ConstructA_summary summary_failed_iff)
  have dir: "dll_directory (snd (ConstructA env path s)) = Some (saved_narrow env s)"
    by (simp add: ConstructA_summary summary_dir)
  show ?thesis
  proof (intro conjI exI)
    show "calls_since s (snd (ConstructA env path s))
        = ((if dll_directory s = None \<or> dll_directory s = Some []
            then [SetDllDirectoryCall []] else []) @
           (if GetDirnameA path \<noteq> [] then [SetDllDirectoryCall (GetDirnameA path)] else []))
          @ [LoadLibraryCall path ?h, SetDllDirectoryCall (saved_narrow env s)]"
      by (rule log)
  qed (simp_all only: dir thrown)
qed

lemma search_directory_restored_when_lengths_agree:
  assumes "wide_length (lead_byte env) (directory_in_force s) = length (directory_in_force s)"
  shows "dll_directory (snd (ConstructA env path s))
      = dll_directory (ExcludeCurrentDirectory env s)"
  using assms by (simp add: ConstructA_summary summary_dir Exclude_dir saved_narrow_def)

lemma search_directory_restored_single_byte:
  assumes "\<And>c. \<not> lead_byte env c"
  shows "dll_directory (snd (ConstructA env path s))
      = dll_directory (ExcludeCurrentDirectory env s)"
  by (rule search_directory_restored_when_lengths_agree)
     (simp add: wide_length_single_byte assms)

text \<open>The wide constructor always puts the directory back.\<close>

lemma wide_search_directory_restored:
  "dll_directory (snd (ConstructW env path s)) = dll_directory (ExcludeCurrentDirectory env s)"
  by (simp add: ConstructW_summary summary_dir Exclude_dir)

subsection \<open>C5: the exclusion step, run again\<close>

text \<open>
  C5 says that the exclusion step calls the set-search-directory primitive only when no
  search directory is configured, so that a second construction in the same process
  performs no further exclusion. As stated this fails: the length query cannot tell an
  unset directory from an empty one, as the comment in
  \<^verbatim>\<open>ExcludeCurrentDirectory\<close> says, and the call is made again. Here a second
  construction follows a first one in a fresh process; the first has left the search
  directory configured as the empty string, and the second starts with the same
  exclusion call.
\<close>

theorem second_construction_excludes_again:
  "dll_directory (snd (ConstructA (one_module_env short_path) short_path
       (fresh_process ''C:/work''))) = Some []
   \<and> calls_since
       (snd (ConstructA (one_module_env short_path) short_path (fresh_process ''C:/work'')))
       (snd (ConstructA (one_module_env short_path) short_path
          (snd (ConstructA (one_module_env short_path) short_path (fresh_process ''C:/work'')))))
     = [SetDllDirectoryCall [], SetDllDirectoryCall ''plugins'',
        LoadLibraryCall short_path 1, SetDllDirectoryCall []]"
  by (simp add: model_defs example_defs)

text \<open>
  C5 as amended: the exclusion step is idempotent in its effect. It calls the
  set-search-directory primitive, with the empty string, exactly when the search
  directory is unset or empty; running it twice leaves the same search directory as
  running it once; and a second construction leaves the search directory as the first
  one left it.
\<close>

theorem exclusion_idempotent:
  "calls (ExcludeCurrentDirectory env s)
     = calls s @ (if dll_directory s = None \<or> dll_directory s = Some []
                  then [SetDllDirectoryCall []] else [])
   \<and> dll_directory (ExcludeCurrentDirectory env (ExcludeCurrentDirectory env s))
     = dll_directory (ExcludeCurrentDirectory env s)
   \<and> dll_directory (snd (ConstructA env path2 (snd (ConstructA env path1 s))))
     = dll_directory (snd (ConstructA env path1 s))"
  by (simp add: Exclude_calls Exclude_dir ConstructA_summary summary_dir saved_narrow_idem
      directory_in_force_def)

theorem exclusion_idempotent_witness:
  "calls (ExcludeCurrentDirectory (one_module_env short_path) (fresh_process ''C:/work''))
     = [SetDllDirectoryCall []]
   \<and> calls (ExcludeCurrentDirectory (one_module_env short_path)
        (configured_process ''C:/work'' ''C:/deps'')) = []
   \<and> dll_directory (ExcludeCurrentDirectory (one_module_env short_path)
        (ExcludeCurrentDirectory (one_module_env short_path) (fresh_process ''C:/work'')))
     = Some []"
proof -
  let ?E = "one_module_env short_path"
  let ?F = "fresh_process ''C:/work'' :: char os_state"
  let ?D = "configured_process ''C:/work'' ''C:/deps'' :: char os_state"
  have "dll_directory ?F = None" "calls ?F = []"
    "dll_directory ?D = Some ''C:/deps''" "calls ?D = []"
    "dll_directory (ExcludeCurrentDirectory ?E ?F) = Some []"
    by (simp_all add: model_defs example_defs)
  then show ?thesis
    using exclusion_idempotent [of ?E ?F] exclusion_idempotent [of ?E ?D]
    by simp
qed

subsection \<open>C6: the handle of a constructed loader is never null\<close>

text \<open>
  A loader that a constructor returns has a handle that is not null, and the handle stays
  so through every later symbol resolution, the only operation between construction and
  destruction; in particular the exception for a null handle is never thrown on a
  constructed loader.
\<close>

lemma constructed_handle_stays_not_null:
  assumes "fst (ConstructA env path s) = Inr this"
  shows "shared_object this \<noteq> 0"
    and "fst (snd (get_symbols env this names s1)) = this"
    and "Inl (Throw (UnknownLibrary m)) \<notin> set (fst (get_symbols env this names s1))"
proof -
  from assms show nonnull: "shared_object this \<noteq> 0"
    unfolding ConstructA_summary by (rule summary_loaded)
  obtain rs t s2 where run: "get_symbols env this names s1 = (rs, t, s2)"
    by (cases "get_symbols env this names s1") auto
  from get_symbols_frame [OF run, of m] nonnull run
  show "fst (snd (get_symbols env this names s1)) = this"
    and "Inl (Throw (UnknownLibrary m)) \<notin> set (fst (get_symbols env this names s1))"
    by simp_all
qed

lemma wide_constructed_handle_not_null:
  "fst (ConstructW env path s) = Inr this \<Longrightarrow> shared_object this \<noteq> 0"
  unfolding ConstructW_summary by (rule summary_loaded)

text \<open>
  A construction that does not return a loader ends in the load exception while the
  working directory is shorter than 1024 characters, and by streaming a null pointer
  otherwise.
\<close>

lemma failed_construction_outcome:
  assumes "fst (ConstructA env path s) = Inl a"
  shows "length (current_directory s) < 1024 \<Longrightarrow>
           \<exists>code. a = Throw (CannotLoadLibrary path code (current_directory s))"
    and "\<not> length (current_directory s) < 1024 \<Longrightarrow> a = NullStreamed"
  using assms
  by (auto simp: ConstructA_summary construct_summary_def Let_def getcwd_def
      split: prod.splits if_splits)

text \<open>
  C6 says that after every successful construction the stored handle is not null and
  stays so until destruction, and that a failed construction exits by exception, so that
  no loader with a null handle can be observed. The part about the handle holds, as
  shown above. The part about the failed construction is missed in one case, the one
  of C2: with a working directory of 1024 characters or more the constructor streams the
  unchecked null pointer from \<^verbatim>\<open>_getcwd\<close> where it should throw, and what follows
  has no defined behaviour. Here the working directory has 1024 characters: loading the
  module that exists returns a loader with handle 1, and loading a path that does not
  exist ends by streaming the null pointer, not in an exception.
\<close>

theorem failed_construction_streams_null:
  "fst (ConstructA (one_module_env short_path) short_path (fresh_process long_cwd))
     = Inr \<lparr>shared_object = 1\<rparr>
   \<and> fst (ConstructA (one_module_env short_path) slash_path (fresh_process long_cwd))
     = Inl NullStreamed
   \<and> fst (ConstructW (one_module_env (map widen short_path)) (map widen slash_path)
        (fresh_process long_cwd))
     = Inl NullStreamed"
  by (simp add: model_defs example_defs)

subsection \<open>C7: the destructor\<close>

lemma Destroy_loaded:
  assumes "shared_object this \<noteq> 0" and "0 < refcount s (shared_object this)"
  shows "Destroy env this s =
     s\<lparr>refcount := (refcount s)(shared_object this := refcount s (shared_object this) - 1),
       calls := calls s @ [FreeLibraryCall (shared_object this) True]\<rparr>"
  using assms by (simp add: Destroy_def FreeLibrary_def)

lemma Destroy_calls:
  "calls (Destroy env this s)
     = calls s @ [FreeLibraryCall (shared_object this)
                    (shared_object this \<noteq> 0 \<and> 0 < refcount s (shared_object this))]"
  by (simp add: Destroy_def FreeLibrary_def)

lemma free_calls_append: "free_calls (xs @ ys) = free_calls xs @ free_calls ys"
  by (induction xs rule: free_calls.induct) simp_all



text \<open>
  A loader and its copy are destroyed one after the other and each makes its unload call
  on the same handle: one load, two unload calls. The second succeeds only if the module
  had another reference before the construction, which it then takes away.
\<close>

lemma copied_loader_unloads_twice:
  assumes "fst (ConstructA env path s) = Inr this"
  shows "free_calls (calls_since s (snd (scoped_copyA env path s)))
        = [(shared_object this, True),
           (shared_object this, 0 < refcount s (shared_object this))]"
proof -
  from assms obtain s1 where c: "ConstructA env path s = (Inr this, s1)"
    by (cases "ConstructA env path s") auto
  then have s1: "s1 = snd (ConstructA env path s)"
    by simp
  from assms have h: "shared_object this \<noteq> 0"
    and "refcount (snd (ConstructA env path s))
      = (refcount s)(shared_object this := Suc (refcount s (shared_object this)))"
    unfolding ConstructA_summary by (rule summary_loaded)+
  then have r1: "refcount s1
      = (refcount s)(shared_object this := Suc (refcount s (shared_object this)))"
    by (simp add: s1)
  have c1: "calls s1
      = calls s @ construct_log env (saved_narrow env s) (GetDirnameA path) path s"
    unfolding s1
    by (simp add: ConstructA_summary construct_summary_def Let_def split: prod.splits)
  have use: "snd (scoped_copyA env path s)
      = Destroy env this (Destroy env (copy_loader this) s1)"
    by (simp add: scoped_copyA_def c)
  have d1: "Destroy env (copy_loader this) s1 =
     s1\<lparr>refcount := (refcount s1)(shared_object this := refcount s1 (shared_object this) - 1),
       calls := calls s1 @ [FreeLibraryCall (shared_object this) True]\<rparr>"
    using h by (simp add: Destroy_def FreeLibrary_def copy_loader_def r1)
  show ?thesis
    using h
    by (simp add: use Destroy_calls d1 r1 c1 calls_since_def free_calls_append free_calls_log)
qed




text \<open>The life of an object made by the wide constructor releases its handle once, too.\<close>

lemma wide_destructor_releases_once:
  assumes "fst (ConstructW env path s) = Inr this"
  shows "free_calls (calls_since s (snd (scoped_useW env path names s)))
        = [(shared_object this, True)]"
    and "refcount (snd (scoped_useW env path names s)) = refcount s"
proof -
  from assms obtain s1 where c: "ConstructW env path s = (Inr this, s1)"
    by (cases "ConstructW env path s") auto
  then have s1: "s1 = snd (ConstructW env path s)"
    by simp
  obtain rs t s2 where run: "get_symbols env this names s1 = (rs, t, s2)"
    by (cases "get_symbols env this names s1") auto
  from get_symbols_frame [OF run, of "[]"]
  have t: "t = this" and r2: "refcount s2 = refcount s1" and c2: "calls s2 = calls s1"
    by simp_all
  from assms have h: "shared_object this \<noteq> 0"
    and "refcount (snd (ConstructW env path s))
      = (refcount s)(shared_object this := Suc (refcount s (shared_object this)))"
    unfolding ConstructW_summary by (rule summary_loaded)+
  then have r1: "refcount s1
      = (refcount s)(shared_object this := Suc (refcount s (shared_object this)))"
    by (simp add: s1)
  have c1: "calls s1
      = calls s @ construct_log env (directory_in_force s) (GetDirnameW path) path s"
    unfolding s1
    by (simp add: ConstructW_summary construct_summary_def Let_def split: prod.splits)
  have use: "snd (scoped_useW env path names s) = Destroy env this s2"
    by (simp add: scoped_useW_def c run t)
  have d: "Destroy env this s2 =
     s2\<lparr>refcount := (refcount s2)(shared_object this := refcount s2 (shared_object this) - 1),
       calls := calls s2 @ [FreeLibraryCall (shared_object this) True]\<rparr>"
    using h by (intro Destroy_loaded) (simp_all add: r2 r1)
  show "free_calls (calls_since s (snd (scoped_useW env path names s)))
      = [(shared_object this, True)]"
    by (simp add: use d c2 c1 calls_since_def free_calls_append free_calls_log)
  show "refcount (snd (scoped_useW env path names s)) = refcount s"
    by (simp add: use d r2 r1)
qed

subsection \<open>C8: the narrow and the wide dirname\<close>

text \<open>
  C8 says that for every path with a separator the narrow and the wide constructor pass
  the same directory, up to the width of the characters, to the set-search-directory
  primitive. The code does not do this: \<^verbatim>\<open>FindLastPathSeparatorA\<close> calls
  \<^verbatim>\<open>strchr\<close>, which finds the first separator, where
  \<^verbatim>\<open>FindLastPathSeparatorW\<close> calls \<^verbatim>\<open>wcsrchr\<close>, which finds the last. On a
  path with two separators the narrow dirname ends at the first and the wide one at the
  second, and the constructors pass these two different directories.
\<close>

theorem narrow_dirname_stops_at_first_separator:
  "GetDirnameA deep_path = ''C:''
   \<and> GetDirnameW (map widen deep_path) = map widen (''C:'' @ [kPathSeparator] @ ''plugins'')
   \<and> map widen (GetDirnameA deep_path) \<noteq> GetDirnameW (map widen deep_path)
   \<and> dir_before_load (calls_since (fresh_process ''C:/work'')
        (snd (ConstructA (one_module_env deep_path) deep_path (fresh_process ''C:/work''))))
      = Some ''C:''
   \<and> dir_before_load (calls_since (fresh_process ''C:/work'')
        (snd (ConstructW (one_module_env (map widen deep_path)) (map widen deep_path)
               (fresh_process ''C:/work''))))
      = Some (map widen (''C:'' @ [kPathSeparator] @ ''plugins''))"
  by (simp add: model_defs example_defs)

text \<open>
  The two agree, up to the width of the characters, exactly on the paths the slip does
  not touch: those with at most one separator.
\<close>

lemma of_char_less_256: "(of_char c :: nat) < 256"
proof -
  have "(of_char c :: nat) mod 256 < 256"
    by (rule mod_less_divisor) simp
  then show ?thesis by simp
qed

lemma widen_inj: "widen a = widen b \<longleftrightarrow> a = b"
proof -
  have "of_char a < (2 ^ 16 :: nat)" "of_char b < (2 ^ 16 :: nat)"
    by (rule less_trans [OF of_char_less_256], simp)+
  then have "(of_nat (of_char a) :: wchar) = of_nat (of_char b) \<longleftrightarrow>
      (of_char a :: nat) = of_char b"
    by (simp add: word_of_nat_eq_iff take_bit_nat_eq_self)
  then show ?thesis by (simp add: widen_def)
qed

lemma dirnames_agree_on_single_separator:
  assumes "kPathSeparator \<notin> set dir" and "kPathSeparator \<notin> set rest"
  shows "GetDirnameW (map widen (dir @ kPathSeparator # rest))
      = map widen (GetDirnameA (dir @ kPathSeparator # rest))"
proof -
  from assms(2) have "widen kPathSeparator \<notin> set (map widen rest)"
    by (auto simp: widen_inj)
  then have "GetDirnameW (map widen dir @ widen kPathSeparator # map widen rest)
      = map widen dir"
    by (rule GetDirnameW_last)
  moreover from assms(1) have "GetDirnameA (dir @ kPathSeparator # rest) = dir"
    by (rule GetDirnameA_first)
  ultimately show ?thesis by simp
qed


subsection \<open>C9: a path without a separator\<close>

text \<open>
  C9: for every path without a backslash, paths with forward slashes among them,
  \<^verbatim>\<open>GetDirnameA\<close> returns the whole path, which is not empty when the path is not,
  so the constructor passes the whole path to the set-search-directory primitive directly
  before the load, and the load runs with the path itself as the search directory.
\<close>

theorem path_without_separator_is_its_dirname:
  assumes "kPathSeparator \<notin> set path"
  shows "GetDirnameA path = path
       \<and> (path \<noteq> [] \<longrightarrow>
            dir_before_load (calls_since s (snd (ConstructA env path s))) = Some path
            \<and> load_calls (calls_since s (snd (ConstructA env path s)))
                = [(path, fst (find_module env (Some path) (current_directory s) path))])"
  using assms
  by (simp add: GetDirnameA_none ConstructA_since dir_before_load_log load_calls_log)

theorem path_without_separator_is_its_dirname_witness:
  "kPathSeparator \<notin> set slash_path
   \<and> slash_path \<noteq> []
   \<and> GetDirnameA slash_path = ''plugins/x.dll''
   \<and> dir_before_load (calls_since (fresh_process ''C:/work'')
        (snd (ConstructA (one_module_env slash_path) slash_path (fresh_process ''C:/work''))))
      = Some ''plugins/x.dll''"
proof -
  have free: "kPathSeparator \<notin> set slash_path" and full: "slash_path \<noteq> []"
    and path: "slash_path = ''plugins/x.dll''"
    by (simp_all add: slash_path_def kPathSeparator_def)
  from path_without_separator_is_its_dirname
    [OF free, of "fresh_process ''C:/work''" "one_module_env slash_path"] full
  have "GetDirnameA slash_path = slash_path"
    and "dir_before_load (calls_since (fresh_process ''C:/work'')
        (snd (ConstructA (one_module_env slash_path) slash_path (fresh_process ''C:/work''))))
      = Some slash_path"
    by simp_all
  with free full show ?thesis
    by (simp add: path)
qed

text \<open>The wide dirname of a path without a separator is the path as well.\<close>

lemma wide_path_without_separator_is_its_dirname:
  assumes "widen kPathSeparator \<notin> set path" and "path \<noteq> []"
  shows "GetDirnameW path = path"
    and "dir_before_load (calls_since s (snd (ConstructW env path s))) = Some path"
  using assms
  by (simp_all add: GetDirnameW_none ConstructW_since dir_before_load_log)

subsection \<open>C10: the front of the buffer\<close>

text \<open>
  Without the exclusion step the buffer can be empty: that is the case exactly when no
  search directory was ever configured and the length query answers zero for it.
\<close>

lemma front_of_empty_buffer_iff:
  "IncludePluginDirectoryA env path s = Inl FrontOfEmptyVector
     \<longleftrightarrow> dll_directory s = None \<and> unset_reports_zero env"
  by (simp add: IncludePluginDirectoryA_def GetDllDirectoryW_required_def Let_def
      split: option.splits)

lemma wide_front_of_empty_buffer_iff:
  "IncludePluginDirectoryW env path s = Inl FrontOfEmptyVector
     \<longleftrightarrow> dll_directory s = None \<and> unset_reports_zero env"
  by (simp add: IncludePluginDirectoryW_def GetDllDirectory_def Let_def split: option.splits)

text \<open>
  C10: once \<^verbatim>\<open>ExcludeCurrentDirectory\<close> has run, the length query answers at least
  one, so the buffer of \<^verbatim>\<open>IncludePluginDirectoryA\<close> is not empty when its front
  element is taken. The constructor, which runs the exclusion step first, never reaches
  the access to an empty buffer.
\<close>

theorem buffer_front_in_bounds:
  "1 \<le> GetDllDirectoryW_required env (ExcludeCurrentDirectory env s)
   \<and> (\<exists>old s'. IncludePluginDirectoryA env path (ExcludeCurrentDirectory env s)
                  = Inr (old, s'))
   \<and> fst (ConstructA env path s) \<noteq> Inl FrontOfEmptyVector"
proof (intro conjI)
  show "1 \<le> GetDllDirectoryW_required env (ExcludeCurrentDirectory env s)"
    by (simp add: GetDllDirectoryW_required_def Exclude_dir)
  show "\<exists>old s'. IncludePluginDirectoryA env path (ExcludeCurrentDirectory env s)
                  = Inr (old, s')"
    by (simp add: IncludePluginDirectoryA_def GetDllDirectoryW_required_def Exclude_dir Let_def)
  show "fst (ConstructA env path s) \<noteq> Inl FrontOfEmptyVector"
    unfolding ConstructA_summary using summary_failed(3) by blast
qed

text \<open>
  An environment whose length query answers zero for an unset directory shows that the
  exclusion step is what keeps the buffer from being empty.
\<close>

theorem buffer_front_in_bounds_witness:
  "IncludePluginDirectoryA zero_length_env short_path (fresh_process ''C:/work'')
     = Inl FrontOfEmptyVector
   \<and> 1 \<le> GetDllDirectoryW_required zero_length_env
        (ExcludeCurrentDirectory zero_length_env (fresh_process ''C:/work''))
   \<and> IncludePluginDirectoryA zero_length_env short_path
        (ExcludeCurrentDirectory zero_length_env (fresh_process ''C:/work''))
     \<noteq> Inl FrontOfEmptyVector
   \<and> fst (ConstructA zero_length_env short_path (fresh_process ''C:/work''))
     = Inr \<lparr>shared_object = 1\<rparr>"
proof -
  let ?S = "fresh_process ''C:/work'' :: char os_state"
  have bare: "IncludePluginDirectoryA zero_length_env short_path ?S = Inl FrontOfEmptyVector"
    by (simp add: front_of_empty_buffer_iff zero_length_env_def fresh_process_def)
  have run: "fst (ConstructA zero_length_env short_path ?S) = Inr \<lparr>shared_object = 1\<rparr>"
    by (simp add: model_defs example_defs)
  from buffer_front_in_bounds [of zero_length_env ?S short_path]
  have "1 \<le> GetDllDirectoryW_required zero_length_env
        (ExcludeCurrentDirectory zero_length_env ?S)"
    and "IncludePluginDirectoryA zero_length_env short_path
        (ExcludeCurrentDirectory zero_length_env ?S) \<noteq> Inl FrontOfEmptyVector"
    by auto
  with bare run show ?thesis
    by simp
qed

text \<open>The wide constructor is protected in the same way.\<close>

lemma wide_buffer_front_in_bounds:
  "IncludePluginDirectoryW env path (ExcludeCurrentDirectory env s) \<noteq> Inl FrontOfEmptyVector"
  "fst (ConstructW env path s) \<noteq> Inl FrontOfEmptyVector"
proof -
  show "IncludePluginDirectoryW env path (ExcludeCurrentDirectory env s)
      \<noteq> Inl FrontOfEmptyVector"
    by (simp add: wide_front_of_empty_buffer_iff Exclude_dir)
  show "fst (ConstructW env path s) \<noteq> Inl FrontOfEmptyVector"
    unfolding ConstructW_summary using summary_failed(3) by blast
qed

end
